theory Spec2Isabelle
  imports Complex_Main
begin

section \<open>Values of the program\<close>

subsection \<open>Floating-point numbers\<close>

text \<open>
  The generator computes on NumPy arrays of double-precision floats. A float is modelled
  by its exact real value, or by one of the three special values the code tests for and
  produces: plus infinity, minus infinity and not-a-number. Rounding, overflow of a
  finite result and the sign of zero are outside this model: a finite result is the
  exact real result.
\<close>

datatype float64 = Fin real | PInf | NInf | NaN

fun isinf :: "float64 \<Rightarrow> bool" where
  "isinf PInf = True"
| "isinf NInf = True"
| "isinf _ = False"

fun isnan :: "float64 \<Rightarrow> bool" where
  "isnan NaN = True"
| "isnan _ = False"

fun isfinite :: "float64 \<Rightarrow> bool" where
  "isfinite (Fin _) = True"
| "isfinite _ = False"

text \<open>Negation, used to flip the sign of an infinity.\<close>

fun fneg :: "float64 \<Rightarrow> float64" where
  "fneg (Fin a) = Fin (- a)"
| "fneg PInf = NInf"
| "fneg NInf = PInf"
| "fneg NaN = NaN"

text \<open>An infinity times or divided by a finite number \<open>b\<close>: the sign follows \<open>b\<close>.\<close>

definition inf_scaled :: "float64 \<Rightarrow> real \<Rightarrow> float64" where
  "inf_scaled i b = (if 0 < b then i else if b < 0 then fneg i else NaN)"

fun fadd :: "float64 \<Rightarrow> float64 \<Rightarrow> float64" where
  "fadd (Fin a) (Fin b) = Fin (a + b)"
| "fadd NaN _ = NaN"
| "fadd _ NaN = NaN"
| "fadd PInf NInf = NaN"
| "fadd NInf PInf = NaN"
| "fadd PInf _ = PInf"
| "fadd NInf _ = NInf"
| "fadd _ PInf = PInf"
| "fadd _ NInf = NInf"

fun fmul :: "float64 \<Rightarrow> float64 \<Rightarrow> float64" where
  "fmul (Fin a) (Fin b) = Fin (a * b)"
| "fmul NaN _ = NaN"
| "fmul _ NaN = NaN"
| "fmul (Fin a) i = inf_scaled i a"
| "fmul i (Fin b) = inf_scaled i b"
| "fmul PInf i = i"
| "fmul NInf i = fneg i"

text \<open>
  Division as NumPy's arrays do it: a division by zero is no error, it yields an
  infinity with the sign of the numerator, or not-a-number for \<open>0 / 0\<close>. Every
  divisor in the code is a square, so the zero divisor is the positive zero.
\<close>

fun fdiv :: "float64 \<Rightarrow> float64 \<Rightarrow> float64" where
  "fdiv (Fin a) (Fin b) =
     (if b = 0 then (if 0 < a then PInf else if a < 0 then NInf else NaN) else Fin (a / b))"
| "fdiv NaN _ = NaN"
| "fdiv _ NaN = NaN"
| "fdiv (Fin a) _ = Fin 0"
| "fdiv i (Fin b) = (if b < 0 then fneg i else i)"
| "fdiv _ _ = NaN"

text \<open>\<open>x ** 2\<close>\<close>

definition fsquare :: "float64 \<Rightarrow> float64" where
  "fsquare x = fmul x x"

text \<open>\<open>x ** 0.5\<close> on an array, which NumPy computes as the square root.\<close>

fun fsqrt :: "float64 \<Rightarrow> float64" where
  "fsqrt (Fin a) = (if a < 0 then NaN else Fin (sqrt a))"
| "fsqrt PInf = PInf"
| "fsqrt _ = NaN"

text \<open>The largest finite double, \<open>(2 - 2\<^sup>-\<^sup>5\<^sup>2) \<times> 2\<^sup>1\<^sup>0\<^sup>2\<^sup>3\<close>.\<close>

definition float_max :: real where
  "float_max = 2 ^ 1024 - 2 ^ 971"

text \<open>
  \<open>np.nan_to_num\<close> with its default arguments: not-a-number becomes zero, an
  infinity becomes the largest finite double with the same sign.
\<close>

fun nan_to_num :: "float64 \<Rightarrow> float64" where
  "nan_to_num (Fin a) = Fin a"
| "nan_to_num NaN = Fin 0"
| "nan_to_num PInf = Fin float_max"
| "nan_to_num NInf = Fin (- float_max)"

subsection \<open>Errors, sequences and arrays\<close>

text \<open>The exceptions the code raises itself or lets through from NumPy.\<close>

datatype pyerr = ValueError | IndexError | TypeError | AttributeError | LinAlgError

text \<open>
  A one-dimensional sequence of numbers is either a NumPy array or a plain Python list
  or tuple; a stored prior can be any of them, and arithmetic treats them differently.
\<close>

datatype pyseq = NdArray "float64 list" | PySeq "float64 list"

fun items :: "pyseq \<Rightarrow> float64 list" where
  "items (NdArray xs) = xs"
| "items (PySeq xs) = xs"

text \<open>
  What a caller may pass as \<open>prior_mu\<close> or \<open>prior_sigma\<close>: \<open>None\<close>, a float or
  an int, a list, tuple or array, or a value of any other type.
\<close>

datatype prior_arg = ArgNone | ArgScalar float64 | ArgSeq pyseq | ArgOther

text \<open>
  An n-dimensional array: its shape and its elements in row-major order, as
  \<open>ravel()\<close> returns them. NumPy keeps the number of elements equal to the product
  of the shape.
\<close>

record 'a ndarray =
  shape :: "nat list"
  flat :: "'a list"

definition np_prod :: "nat list \<Rightarrow> nat" where
  "np_prod sh = prod_list sh"

definition wf_ndarray :: "'a ndarray \<Rightarrow> bool" where
  "wf_ndarray a = (length (flat a) = np_prod (shape a))"

text \<open>
  A two-dimensional array such as the design matrix: its rows, and its number of
  columns (which the rows alone do not give when there is no row).
\<close>

record matrix =
  ncols :: nat
  rows :: "float64 list list"

definition nrows :: "matrix \<Rightarrow> nat" where
  "nrows X = length (rows X)"

definition wf_matrix :: "matrix \<Rightarrow> bool" where
  "wf_matrix X = list_all (\<lambda>r. length r = ncols X) (rows X)"

subsection \<open>The generator instance\<close>

text \<open>
  The attributes of a \<open>Generator\<close> that the base class reads and writes. \<open>width\<close>
  is the abstract property a concrete generator supplies. An attribute that holds
  \<open>None\<close>, or that has not been assigned, is \<open>None\<close> here.
\<close>

record generator =
  width :: nat
  prior_mu :: "pyseq option"
  prior_sigma :: "pyseq option"
  fit_mu :: "pyseq option"
  fit_sigma :: "pyseq option"
  cov :: "float64 list list option"
  data_shape :: "nat list option"

section \<open>Prior validation\<close>

text \<open>\<open>np.zeros(n)\<close> and \<open>np.ones(n) * c\<close>\<close>

definition np_zeros :: "nat \<Rightarrow> float64 list" where
  "np_zeros n = replicate n (Fin 0)"

definition np_ones :: "nat \<Rightarrow> float64 list" where
  "np_ones n = replicate n (Fin 1)"

definition scale :: "float64 list \<Rightarrow> float64 \<Rightarrow> float64 list" where
  "scale xs c = map (\<lambda>x. fmul x c) xs"

text \<open>
  One half of \<open>_validate_priors\<close>: what is stored for an argument, or the error.
  \<open>Inr None\<close> is the path that ends without an assignment: a sequence whose length
  is not the width falls out of the inner \<open>if\<close>, which has no \<open>else\<close>.
\<close>

fun parse_prior :: "nat \<Rightarrow> float64 list \<Rightarrow> prior_arg \<Rightarrow> pyerr + pyseq option" where
  "parse_prior w dflt ArgNone = Inr (Some (NdArray dflt))"
| "parse_prior w dflt (ArgScalar c) = Inr (Some (NdArray (scale (np_ones w) c)))"
| "parse_prior w dflt (ArgSeq s) =
     (if length (items s) = w then Inr (Some s) else Inr None)"
| "parse_prior w dflt ArgOther = Inl ValueError"

text \<open>
  \<open>_validate_priors(self, prior_mu, prior_sigma)\<close>: the instance afterwards, and
  the exception if one was raised. The mean is handled first, so an error on the sigma
  leaves the mean assigned.
\<close>

definition validate_priors ::
  "generator \<Rightarrow> prior_arg \<Rightarrow> prior_arg \<Rightarrow> generator \<times> pyerr option" where
  "validate_priors g pm ps =
     (case parse_prior (width g) (np_zeros (width g)) pm of
        Inl e \<Rightarrow> (g, Some e)
      | Inr m \<Rightarrow>
          (let g1 = (case m of None \<Rightarrow> g | Some v \<Rightarrow> g\<lparr>prior_mu := Some v\<rparr>) in
           case parse_prior (width g1) (scale (np_ones (width g1)) PInf) ps of
             Inl e \<Rightarrow> (g1, Some e)
           | Inr s \<Rightarrow>
               ((case s of None \<Rightarrow> g1 | Some v \<Rightarrow> g1\<lparr>prior_sigma := Some v\<rparr>), None)))"

text \<open>A freshly created instance of width \<open>w\<close>, before any attribute is assigned.\<close>

definition new_generator :: "nat \<Rightarrow> generator" where
  "new_generator w =
     \<lparr>width = w, prior_mu = None, prior_sigma = None, fit_mu = None, fit_sigma = None,
      cov = None, data_shape = None\<rparr>"

section \<open>Current coefficients and evaluation\<close>

text \<open>
  The properties \<open>mu\<close> and \<open>sigma\<close>. Reading an attribute that was never
  assigned raises \<open>AttributeError\<close>, which is what happens to the prior when
  validation left it unassigned. \<open>fit_mu\<close> and \<open>fit_sigma\<close> hold \<open>None\<close>
  until a concrete generator's \<open>fit\<close> stores a result.
\<close>

definition mu :: "generator \<Rightarrow> pyerr + pyseq" where
  "mu g =
     (case fit_mu g of
        None \<Rightarrow> (case prior_mu g of None \<Rightarrow> Inl AttributeError | Some p \<Rightarrow> Inr p)
      | Some m \<Rightarrow> Inr m)"

definition sigma :: "generator \<Rightarrow> pyerr + pyseq" where
  "sigma g =
     (case fit_sigma g of
        None \<Rightarrow> (case prior_sigma g of None \<Rightarrow> Inl AttributeError | Some p \<Rightarrow> Inr p)
      | Some s \<Rightarrow> Inr s)"

text \<open>Sum and inner product of vectors; the empty sum is zero.\<close>

definition fsum :: "float64 list \<Rightarrow> float64" where
  "fsum xs = foldr fadd xs (Fin 0)"

definition fdot :: "float64 list \<Rightarrow> float64 list \<Rightarrow> float64" where
  "fdot xs ys = fsum (map2 fmul xs ys)"

text \<open>
  \<open>X.dot(v)\<close> for a two-dimensional \<open>X\<close> and a one-dimensional \<open>v\<close>: NumPy
  raises \<open>ValueError\<close> unless \<open>v\<close> has as many entries as \<open>X\<close> has columns.
\<close>

definition mat_vec :: "matrix \<Rightarrow> float64 list \<Rightarrow> pyerr + float64 list" where
  "mat_vec X v =
     (if length v = ncols X then Inr (map (\<lambda>r. fdot r v) (rows X)) else Inl ValueError)"

text \<open>\<open>y.reshape(sh)\<close> for a one-dimensional \<open>y\<close>.\<close>

definition np_reshape :: "'a list \<Rightarrow> nat list \<Rightarrow> pyerr + 'a ndarray" where
  "np_reshape y sh =
     (if length y = np_prod sh then Inr \<lparr>shape = sh, flat = y\<rparr> else Inl ValueError)"

text \<open>A one-dimensional array.\<close>

definition vector :: "'a list \<Rightarrow> 'a ndarray" where
  "vector y = \<lparr>shape = [length y], flat = y\<rparr>"

text \<open>\<open>X.dot(self.mu)\<close>\<close>

definition dot_mu :: "generator \<Rightarrow> matrix \<Rightarrow> pyerr + float64 list" where
  "dot_mu g X = (case mu g of Inl e \<Rightarrow> Inl e | Inr m \<Rightarrow> mat_vec X (items m))"

text \<open>
  \<open>evaluate\<close>, given the design matrix \<open>X\<close> that the concrete generator's
  \<open>design_matrix\<close> built from the arguments.
\<close>

definition evaluate :: "generator \<Rightarrow> matrix \<Rightarrow> pyerr + float64 ndarray" where
  "evaluate g X =
     (let flat_result = (case dot_mu g X of Inl e \<Rightarrow> Inl e | Inr y \<Rightarrow> Inr (vector y)) in
      case data_shape g of
        None \<Rightarrow> flat_result
      | Some sh \<Rightarrow>
          if nrows X = np_prod sh
          then (case dot_mu g X of Inl e \<Rightarrow> Inl e | Inr y \<Rightarrow> np_reshape y sh)
          else flat_result)"

section \<open>The fit\<close>

text \<open>
  \<open>xs[mask]\<close> with a one-dimensional boolean mask: the entries (or rows) where the
  mask is true; \<open>IndexError\<close> unless the mask is as long as \<open>xs\<close>.
\<close>

definition select :: "'a list \<Rightarrow> bool list \<Rightarrow> 'a list" where
  "select xs msk = map fst (filter snd (zip xs msk))"

definition bool_index :: "'a list \<Rightarrow> bool list \<Rightarrow> pyerr + 'a list" where
  "bool_index xs msk = (if length msk = length xs then Inr (select xs msk) else Inl IndexError)"

definition column :: "float64 list list \<Rightarrow> nat \<Rightarrow> float64 list" where
  "column rs j = map (\<lambda>r. r ! j) rs"

text \<open>
  \<open>A.T.dot(B)\<close> for \<open>A\<close> and \<open>B\<close> with the same number of rows and \<open>w\<close>
  columns each, and \<open>A.T.dot(v)\<close> for a vector \<open>v\<close>.
\<close>

definition tdot_mat :: "nat \<Rightarrow> float64 list list \<Rightarrow> float64 list list \<Rightarrow> float64 list list" where
  "tdot_mat w A B = map (\<lambda>i. map (\<lambda>j. fdot (column A i) (column B j)) [0..<w]) [0..<w]"

definition tdot_vec :: "nat \<Rightarrow> float64 list list \<Rightarrow> float64 list \<Rightarrow> float64 list" where
  "tdot_vec w A v = map (\<lambda>i. fdot (column A i) v) [0..<w]"

text \<open>\<open>A / e[:, None] ** 2\<close>: every row divided by the square of its own error.\<close>

definition rows_over_sq :: "float64 list list \<Rightarrow> float64 list \<Rightarrow> float64 list list" where
  "rows_over_sq A e = map2 (\<lambda>r s. map (\<lambda>x. fdiv x (fsquare s)) r) A e"

text \<open>\<open>d / e ** 2\<close> for two vectors of the same length.\<close>

definition vec_over_sq :: "float64 list \<Rightarrow> float64 list \<Rightarrow> float64 list" where
  "vec_over_sq d e = map2 (\<lambda>x s. fdiv x (fsquare s)) d e"

text \<open>\<open>np.diag(v)\<close> and \<open>C.diagonal()\<close>\<close>

definition np_diag :: "float64 list \<Rightarrow> float64 list list" where
  "np_diag v =
     map (\<lambda>i. map (\<lambda>j. if i = j then v ! i else Fin 0) [0..<length v]) [0..<length v]"

definition diagonal :: "float64 list list \<Rightarrow> float64 list" where
  "diagonal C = map (\<lambda>i. C ! i ! i) [0..<length C]"

text \<open>
  Elementwise operations broadcast: two vectors combine when they have the same length
  or one of them has length one, and two square matrices likewise; anything else is a
  \<open>ValueError\<close>.
\<close>

definition broadcast :: "('a \<Rightarrow> 'a \<Rightarrow> 'a) \<Rightarrow> 'a list \<Rightarrow> 'a list \<Rightarrow> pyerr + 'a list" where
  "broadcast f xs ys =
     (if length xs = length ys then Inr (map2 f xs ys)
      else if length xs = 1 then Inr (map (f (hd xs)) ys)
      else if length ys = 1 then Inr (map (\<lambda>x. f x (hd ys)) xs)
      else Inl ValueError)"

definition mat_add :: "float64 list list \<Rightarrow> float64 list list \<Rightarrow> pyerr + float64 list list" where
  "mat_add A B =
     (if length A = length B then Inr (map2 (map2 fadd) A B)
      else if length A = 1 then Inr (map (map (fadd (hd (hd A)))) B)
      else if length B = 1 then Inr (map (map (\<lambda>a. fadd a (hd (hd B)))) A)
      else Inl ValueError)"

text \<open>
  \<open>1 / self.prior_sigma**2\<close>: the attribute must be assigned, and it must be an array,
  since a list or a tuple has no power operator.
\<close>

definition prior_precision :: "generator \<Rightarrow> pyerr + float64 list" where
  "prior_precision g =
     (case prior_sigma g of
        None \<Rightarrow> Inl AttributeError
      | Some (PySeq _) \<Rightarrow> Inl TypeError
      | Some (NdArray s) \<Rightarrow> Inr (map (\<lambda>x. fdiv (Fin 1) (fsquare x)) s))"

text \<open>
  \<open>np.nan_to_num(self.prior_mu / self.prior_sigma**2)\<close>: the mean may be a list, which
  the division by an array converts.
\<close>

definition prior_term :: "float64 \<Rightarrow> float64 \<Rightarrow> float64" where
  "prior_term m s = nan_to_num (fdiv m (fsquare s))"

definition prior_rhs :: "generator \<Rightarrow> pyerr + float64 list" where
  "prior_rhs g =
     (case prior_mu g of
        None \<Rightarrow> Inl AttributeError
      | Some m \<Rightarrow>
          (case prior_sigma g of
             None \<Rightarrow> Inl AttributeError
           | Some (PySeq _) \<Rightarrow> Inl TypeError
           | Some (NdArray s) \<Rightarrow>
               (case broadcast fdiv (items m) (map fsquare s) of
                  Inl e \<Rightarrow> Inl e
                | Inr q \<Rightarrow> Inr (map nan_to_num q))))"

text \<open>
  The matrix \<open>sigma_w_inv\<close> of the normal equations:
  \<open>X[mask].T.dot(X[mask] / errors.ravel()[mask, None] ** 2) + np.diag(1 / self.prior_sigma**2)\<close>.
\<close>

definition sigma_w_inv ::
  "generator \<Rightarrow> matrix \<Rightarrow> float64 list \<Rightarrow> bool list \<Rightarrow> pyerr + float64 list list" where
  "sigma_w_inv g X errs msk =
     (case bool_index (rows X) msk of
        Inl e \<Rightarrow> Inl e
      | Inr Xm \<Rightarrow>
          (case bool_index errs msk of
             Inl e \<Rightarrow> Inl e
           | Inr em \<Rightarrow>
               (case prior_precision g of
                  Inl e \<Rightarrow> Inl e
                | Inr p \<Rightarrow> mat_add (tdot_mat (ncols X) Xm (rows_over_sq Xm em)) (np_diag p))))"

text \<open>
  The right-hand side \<open>B\<close>:
  \<open>X[mask].T.dot(data.ravel()[mask] / errors.ravel()[mask] ** 2)
    + np.nan_to_num(self.prior_mu / self.prior_sigma**2)\<close>.
\<close>

definition rhs ::
  "generator \<Rightarrow> matrix \<Rightarrow> float64 list \<Rightarrow> float64 list \<Rightarrow> bool list \<Rightarrow> pyerr + float64 list" where
  "rhs g X dat errs msk =
     (case bool_index (rows X) msk of
        Inl e \<Rightarrow> Inl e
      | Inr Xm \<Rightarrow>
          (case bool_index dat msk of
             Inl e \<Rightarrow> Inl e
           | Inr dm \<Rightarrow>
               (case bool_index errs msk of
                  Inl e \<Rightarrow> Inl e
                | Inr em \<Rightarrow>
                    (case prior_rhs g of
                       Inl e \<Rightarrow> Inl e
                     | Inr q \<Rightarrow> broadcast fadd (tdot_vec (ncols X) Xm (vec_over_sq dm em)) q))))"

text \<open>
  The two routines of \<open>numpy.linalg\<close> that the fit calls are parameters of the model:
  \<open>linalg_inv\<close> is \<open>np.linalg.inv\<close>, the inverse of a matrix, and \<open>linalg_solve\<close> is
  \<open>np.linalg.solve\<close>, the solution of a linear
  system, and each may raise instead.
\<close>

record linalg =
  linalg_inv :: "float64 list list \<Rightarrow> pyerr + float64 list list"
  linalg_solve :: "float64 list list \<Rightarrow> float64 list \<Rightarrow> pyerr + float64 list"

text \<open>
  \<open>np.ones(np.prod(data.shape), bool)\<close>, the mask used when none is passed. The
  product of an empty shape is the float \<open>1.0\<close>, which \<open>np.ones\<close> refuses as a
  size: for zero-dimensional data the default mask raises \<open>TypeError\<close>.
\<close>

definition default_mask :: "nat list \<Rightarrow> pyerr + bool list" where
  "default_mask sh = (if sh = [] then Inl TypeError else Inr (replicate (np_prod sh) True))"

text \<open>
  \<open>_fit(self, data, errors, mask, *args)\<close>, given the design matrix \<open>X\<close> built from
  the remaining arguments: the instance afterwards, and either the exception raised or
  the pair \<open>(fit_mu, fit_sigma)\<close> returned. The shape check and the default mask come
  before the assignment of \<open>data_shape\<close>, everything else after it.
\<close>

definition fit ::
  "linalg \<Rightarrow> generator \<Rightarrow> float64 ndarray \<Rightarrow> float64 ndarray option \<Rightarrow> bool ndarray option \<Rightarrow>
     matrix \<Rightarrow> generator \<times> (pyerr + float64 list \<times> float64 list)" where
  "fit la g data errors bmask X =
     (if np_prod (shape data) \<noteq> nrows X then (g, Inl ValueError)
      else
        let errs = (case errors of None \<Rightarrow> np_ones (length (flat data)) | Some e \<Rightarrow> flat e) in
        case (case bmask of None \<Rightarrow> default_mask (shape data) | Some m \<Rightarrow> Inr (flat m)) of
          Inl e \<Rightarrow> (g, Inl e)
        | Inr msk \<Rightarrow>
            (let g1 = g\<lparr>data_shape := Some (shape data)\<rparr> in
             case sigma_w_inv g1 X errs msk of
               Inl e \<Rightarrow> (g1, Inl e)
             | Inr A \<Rightarrow>
                 (case linalg_inv la A of
                    Inl e \<Rightarrow> (g1, Inl e)
                  | Inr C \<Rightarrow>
                      (let g2 = g1\<lparr>cov := Some C\<rparr> in
                       case rhs g2 X (flat data) errs msk of
                         Inl e \<Rightarrow> (g2, Inl e)
                       | Inr B \<Rightarrow>
                           (case linalg_solve la A B of
                              Inl e \<Rightarrow> (g2, Inl e)
                            | Inr fm \<Rightarrow> (g2, Inr (fm, map fsqrt (diagonal C))))))))"

text \<open>
  An instance of the two routines in exact arithmetic, to run the model on concrete
  inputs: Gauss-Jordan elimination on the rows of \<open>A\<close> extended by the rows of the
  right-hand side, with \<open>LinAlgError\<close> when no pivot is left in a column (a singular
  matrix) or when \<open>A\<close> is not square.
\<close>

definition row_sub :: "float64 \<Rightarrow> float64 list \<Rightarrow> float64 list \<Rightarrow> float64 list" where
  "row_sub c p r = map2 (\<lambda>x y. fadd y (fneg (fmul c x))) p r"

fun eliminate :: "nat \<Rightarrow> nat \<Rightarrow> float64 list list \<Rightarrow> pyerr + float64 list list" where
  "eliminate 0 k M = Inr M"
| "eliminate (Suc f) k M =
     (case find (\<lambda>i. M ! i ! k \<noteq> Fin 0) [k..<length M] of
        None \<Rightarrow> Inl LinAlgError
      | Some p \<Rightarrow>
          (let M1 = M[k := M ! p, p := M ! k];
               pr = map (\<lambda>x. fdiv x (M1 ! k ! k)) (M1 ! k);
               M2 = map (\<lambda>i. if i = k then pr else row_sub (M1 ! i ! k) pr (M1 ! i))
                      [0..<length M1]
           in eliminate f (Suc k) M2))"

definition gauss_jordan ::
  "float64 list list \<Rightarrow> float64 list list \<Rightarrow> pyerr + float64 list list" where
  "gauss_jordan A B =
     (if \<not> list_all (\<lambda>r. length r = length A) A then Inl LinAlgError
      else if length B \<noteq> length A then Inl ValueError
      else
        case eliminate (length A) 0 (map2 (@) A B) of
          Inl e \<Rightarrow> Inl e
        | Inr M \<Rightarrow> Inr (map (drop (length A)) M))"

definition identity :: "nat \<Rightarrow> float64 list list" where
  "identity n = np_diag (np_ones n)"

definition exact_inv :: "float64 list list \<Rightarrow> pyerr + float64 list list" where
  "exact_inv A = gauss_jordan A (identity (length A))"

definition exact_solve :: "float64 list list \<Rightarrow> float64 list \<Rightarrow> pyerr + float64 list" where
  "exact_solve A b =
     (case gauss_jordan A (map (\<lambda>x. [x]) b) of
        Inl e \<Rightarrow> Inl e
      | Inr M \<Rightarrow> Inr (map hd M))"

definition exact_linalg :: linalg where
  "exact_linalg = \<lparr>linalg_inv = exact_inv, linalg_solve = exact_solve\<rparr>"

section \<open>The normal equations as the specification writes them\<close>

text \<open>
  The specification gives the matrix of the normal equations as
  \<open>A = X\<^sup>T \<cdot> diag(1/errors\<^sup>2) \<cdot> X + diag(1/prior_sigma\<^sup>2)\<close> over the selected rows.
  Entry by entry: \<open>A\<^sub>i\<^sub>j\<close> is the sum over the rows \<open>r\<close>, with error \<open>e\<close>, of
  \<open>r\<^sub>i \<cdot> (1/e\<^sup>2) \<cdot> r\<^sub>j\<close>, plus \<open>1/prior_sigma\<^sub>i\<^sup>2\<close> on the diagonal.
\<close>

definition spec_normal_entry ::
  "float64 list list \<Rightarrow> float64 list \<Rightarrow> float64 list \<Rightarrow> nat \<Rightarrow> nat \<Rightarrow> float64" where
  "spec_normal_entry Xm em s i j =
     fadd (fsum (map2 (\<lambda>r e. fmul (fmul (r ! i) (fdiv (Fin 1) (fsquare e))) (r ! j)) Xm em))
          (if i = j then fdiv (Fin 1) (fsquare (s ! i)) else Fin 0)"

definition spec_normal_matrix ::
  "nat \<Rightarrow> float64 list list \<Rightarrow> float64 list \<Rightarrow> float64 list \<Rightarrow> float64 list list" where
  "spec_normal_matrix w Xm em s =
     map (\<lambda>i. map (\<lambda>j. spec_normal_entry Xm em s i j) [0..<w]) [0..<w]"

text \<open>
  The specification gives the right-hand side as
  \<open>b = X\<^sup>T \<cdot> (data/errors\<^sup>2) + prior_mu/prior_sigma\<^sup>2\<close>, where a term with an
  infinite \<open>prior_sigma\<close> is 0. Entry by entry: \<open>b\<^sub>i\<close> is the sum over the rows
  \<open>r\<close>, with data value \<open>d\<close> and error \<open>e\<close>, of \<open>r\<^sub>i \<cdot> (d/e\<^sup>2)\<close>, plus the
  prior ratio of coefficient \<open>i\<close>.
\<close>

definition spec_data_term ::
  "float64 list list \<Rightarrow> float64 list \<Rightarrow> float64 list \<Rightarrow> nat \<Rightarrow> float64" where
  "spec_data_term Xm dm em i =
     fsum (map2 (\<lambda>r (d, e). fmul (r ! i) (fdiv d (fsquare e))) Xm (zip dm em))"

definition spec_prior_ratio :: "float64 \<Rightarrow> float64 \<Rightarrow> float64" where
  "spec_prior_ratio m s = (if isinf s then Fin 0 else fdiv m (fsquare s))"

definition spec_rhs ::
  "nat \<Rightarrow> float64 list list \<Rightarrow> float64 list \<Rightarrow> float64 list \<Rightarrow> float64 list \<Rightarrow> float64 list \<Rightarrow>
     float64 list" where
  "spec_rhs w Xm dm em m s =
     map (\<lambda>i. fadd (spec_data_term Xm dm em i) (spec_prior_ratio (m ! i) (s ! i))) [0..<w]"

text \<open>
  The priors for which the specification's ratio is the code's: every prior mean is
  finite, and every prior sigma is neither zero nor not-a-number.
\<close>

definition proper_priors :: "float64 list \<Rightarrow> float64 list \<Rightarrow> bool" where
  "proper_priors m s = (list_all isfinite m \<and> list_all (\<lambda>x. x \<noteq> Fin 0 \<and> \<not> isnan x) s)"

section \<open>Reporting: significant figures\<close>

text \<open>
  Python's fixed-point format \<open>f"{x:.{p}f}"\<close> writes the decimal expansion of \<open>x\<close>
  rounded to \<open>p\<close> decimal places, a tie going to the even digit; a negative number
  keeps its sign even when it rounds to zero, and there is no decimal point when
  \<open>p = 0\<close>.
\<close>

definition round_half_even :: "real \<Rightarrow> int" where
  "round_half_even r =
     (let f = \<lfloor>r\<rfloor>; d = r - of_int f
      in if d < 1 / 2 then f else if 1 / 2 < d then f + 1 else if even f then f else f + 1)"

definition digit_char :: "nat \<Rightarrow> char" where
  "digit_char d = ''0123456789'' ! d"

fun digits :: "nat \<Rightarrow> string" where
  "digits n = (if n < 10 then [digit_char n] else digits (n div 10) @ [digit_char (n mod 10)])"

declare digits.simps [simp del]

definition fixed_str :: "nat \<Rightarrow> real \<Rightarrow> string" where
  "fixed_str p x =
     (let ds = digits (nat (round_half_even (\<bar>x\<bar> * 10 ^ p)));
          padded = replicate (Suc p - length ds) (CHR ''0'') @ ds;
          k = length padded - p
      in (if x < 0 then ''-'' else []) @ take k padded
         @ (if p = 0 then [] else CHR ''.'' # drop k padded))"

text \<open>
  The precision of a format specification is a sequence of digits: with a negative
  number in its place, as in \<open>".-1f"\<close>, formatting raises \<open>ValueError\<close>.
\<close>

definition py_format_f :: "int \<Rightarrow> real \<Rightarrow> pyerr + string" where
  "py_format_f p x = (if p < 0 then Inl ValueError else Inr (fixed_str (nat p) x))"

text \<open>The pair returned for a value that is not finite: \<open>"0"\<close> and \<open>"\\infty"\<close>.\<close>

definition placeholder :: "string \<times> string" where
  "placeholder = (''0'', CHR 0x5C # ''infty'')"

text \<open>\<open>format_significant_figures(mean, error)\<close>\<close>

definition format_significant_figures :: "float64 \<Rightarrow> float64 \<Rightarrow> pyerr + string \<times> string" where
  "format_significant_figures mean error =
     (if isinf mean \<or> isinf error \<or> isnan mean \<or> isnan error then Inr placeholder
      else
        case (mean, error) of
          (Fin m, Fin e) \<Rightarrow>
            (let sig_figures = (if e = 0 then 0 else - \<lfloor>log 10 \<bar>e\<bar>\<rfloor>) in
             case py_format_f sig_figures m of
               Inl err \<Rightarrow> Inl err
             | Inr formatted_mean \<Rightarrow>
                 (case py_format_f sig_figures e of
                    Inl err \<Rightarrow> Inl err
                  | Inr formatted_error \<Rightarrow> Inr (formatted_mean, formatted_error)))
        | _ \<Rightarrow> Inr placeholder)"

section \<open>Properties of prior validation\<close>

lemma scale_ones: "scale (np_ones w) c = replicate w (fmul (Fin 1) c)"
  by (simp add: scale_def np_ones_def)

text \<open>
  C4: constructing with \<open>prior_mu=None\<close> and \<open>prior_sigma=None\<close> raises nothing and
  stores the all-zeros array of length \<open>width\<close> as the prior mean and the array of
  length \<open>width\<close> with every entry plus infinity as the prior sigma; nothing else
  on the instance changes.
\<close>

theorem validate_priors_defaults:
  "validate_priors g ArgNone ArgNone =
     (g\<lparr>prior_mu := Some (NdArray (replicate (width g) (Fin 0))),
        prior_sigma := Some (NdArray (replicate (width g) PInf))\<rparr>, None)"
  by (simp add: validate_priors_def scale_ones np_zeros_def inf_scaled_def)

text \<open>
  C2 fails on the code: a sequence of the wrong length raises nothing. With width 2 and
  a one-element list for the mean, validation completes without an error and the prior
  mean is left unassigned.
\<close>

theorem validate_priors_wrong_length_silent:
  "validate_priors (new_generator 2) (ArgSeq (PySeq [Fin 1])) ArgNone =
     (new_generator 2\<lparr>prior_sigma := Some (NdArray [PInf, PInf])\<rparr>, None)
   \<and> prior_mu (new_generator 2\<lparr>prior_sigma := Some (NdArray [PInf, PInf])\<rparr>) = None"
  by (simp add: validate_priors_def new_generator_def scale_ones inf_scaled_def
      numeral_2_eq_2)

section \<open>Properties of evaluation\<close>

lemma dot_mu_prior:
  "fit_mu g = None \<Longrightarrow> prior_mu g = Some p \<Longrightarrow> length (items p) = ncols X \<Longrightarrow>
   dot_mu g X = Inr (map (\<lambda>r. fdot r (items p)) (rows X))"
  by (simp add: dot_mu_def mu_def mat_vec_def)

lemma dot_mu_current:
  "mu g = Inr m \<Longrightarrow> length (items m) = ncols X \<Longrightarrow>
   dot_mu g X = Inr (map (\<lambda>r. fdot r (items m)) (rows X))"
  by (simp add: dot_mu_def mat_vec_def)

lemma length_dot_mu: "dot_mu g X = Inr y \<Longrightarrow> length y = nrows X"
  by (auto simp: dot_mu_def mat_vec_def nrows_def split: sum.splits if_splits)

lemma evaluate_shape:
  assumes "dot_mu g X = Inr y"
  shows "evaluate g X =
     Inr \<lparr>shape = (case data_shape g of None \<Rightarrow> [nrows X]
                   | Some sh \<Rightarrow> if nrows X = np_prod sh then sh else [nrows X]),
          flat = y\<rparr>"
  using assms length_dot_mu [OF assms]
  by (simp add: evaluate_def np_reshape_def vector_def split: option.splits)

text \<open>
  C8: \<open>mu\<close> and \<open>sigma\<close> are the fitted values when those are present, and the prior
  values when the fitted ones are \<open>None\<close>; so \<open>evaluate\<close> on a generator that was
  never fitted (no fitted mean, no stored data shape) returns the flat vector of the
  inner products of the rows of the design matrix with the prior mean.
\<close>

theorem current_coefficients:
  "(fit_mu g = Some m \<longrightarrow> mu g = Inr m)
   \<and> (fit_sigma g = Some s \<longrightarrow> sigma g = Inr s)
   \<and> (fit_mu g = None \<and> prior_mu g = Some p \<longrightarrow> mu g = Inr p)
   \<and> (fit_sigma g = None \<and> prior_sigma g = Some q \<longrightarrow> sigma g = Inr q)
   \<and> (fit_mu g = None \<and> data_shape g = None \<and> prior_mu g = Some p \<and> length (items p) = ncols X
        \<longrightarrow> evaluate g X = Inr (vector (map (\<lambda>r. fdot r (items p)) (rows X))))"
  by (auto simp: mu_def sigma_def evaluate_shape [OF dot_mu_prior] vector_def nrows_def)

theorem current_coefficients_witness:
  "mu (new_generator 1\<lparr>prior_mu := Some (NdArray [Fin 2]), fit_mu := Some (NdArray [Fin 5])\<rparr>)
     = Inr (NdArray [Fin 5])
   \<and> sigma (new_generator 1\<lparr>prior_sigma := Some (NdArray [PInf]), fit_sigma := Some (NdArray [Fin 3])\<rparr>)
     = Inr (NdArray [Fin 3])
   \<and> mu (new_generator 1\<lparr>prior_mu := Some (NdArray [Fin 2])\<rparr>) = Inr (NdArray [Fin 2])
   \<and> sigma (new_generator 1\<lparr>prior_sigma := Some (NdArray [PInf])\<rparr>) = Inr (NdArray [PInf])
   \<and> evaluate (new_generator 1\<lparr>prior_mu := Some (NdArray [Fin 2])\<rparr>)
        \<lparr>ncols = 1, rows = [[Fin 1], [Fin 3]]\<rparr>
     = Inr \<lparr>shape = [2], flat = [Fin 2, Fin 6]\<rparr>"
proof -
  let ?X = "\<lparr>ncols = 1, rows = [[Fin 1], [Fin 3]]\<rparr>"
  have a: "mu (new_generator 1\<lparr>prior_mu := Some (NdArray [Fin 2]), fit_mu := Some (NdArray [Fin 5])\<rparr>)
      = Inr (NdArray [Fin 5])"
    using current_coefficients
      [of "new_generator 1\<lparr>prior_mu := Some (NdArray [Fin 2]), fit_mu := Some (NdArray [Fin 5])\<rparr>"
          "NdArray [Fin 5]"]
    by simp
  have b: "sigma (new_generator 1\<lparr>prior_sigma := Some (NdArray [PInf]), fit_sigma := Some (NdArray [Fin 3])\<rparr>)
      = Inr (NdArray [Fin 3])"
    using current_coefficients
      [of "new_generator 1\<lparr>prior_sigma := Some (NdArray [PInf]), fit_sigma := Some (NdArray [Fin 3])\<rparr>"
          _ "NdArray [Fin 3]"]
    by simp
  have c: "mu (new_generator 1\<lparr>prior_mu := Some (NdArray [Fin 2])\<rparr>) = Inr (NdArray [Fin 2])
      \<and> evaluate (new_generator 1\<lparr>prior_mu := Some (NdArray [Fin 2])\<rparr>) ?X
          = Inr \<lparr>shape = [2], flat = [Fin 2, Fin 6]\<rparr>"
    using current_coefficients
      [of "new_generator 1\<lparr>prior_mu := Some (NdArray [Fin 2])\<rparr>" _ _ "NdArray [Fin 2]" _ ?X]
    by (simp add: new_generator_def vector_def fdot_def fsum_def)
  have d: "sigma (new_generator 1\<lparr>prior_sigma := Some (NdArray [PInf])\<rparr>) = Inr (NdArray [PInf])"
    using current_coefficients
      [of "new_generator 1\<lparr>prior_sigma := Some (NdArray [PInf])\<rparr>" _ _ _ "NdArray [PInf]"]
    by (simp add: new_generator_def)
  from a b c d show ?thesis by simp
qed

text \<open>
  C7: on a generator with a stored data shape whose current coefficients fit the design
  matrix, \<open>evaluate\<close> returns the inner products of the rows with the coefficients,
  reshaped to the stored shape when the number of rows is the number of elements of
  that shape, and as a flat vector otherwise.
\<close>

theorem evaluate_reshapes:
  assumes "data_shape g = Some sh" and "mu g = Inr m" and "length (items m) = ncols X"
  shows "evaluate g X =
     Inr (if nrows X = np_prod sh
          then \<lparr>shape = sh, flat = map (\<lambda>r. fdot r (items m)) (rows X)\<rparr>
          else vector (map (\<lambda>r. fdot r (items m)) (rows X)))"
  using assms
  by (simp add: evaluate_shape [OF dot_mu_current] vector_def nrows_def)

theorem evaluate_reshapes_witness:
  "evaluate (new_generator 1\<lparr>fit_mu := Some (NdArray [Fin 2]), data_shape := Some [2, 1]\<rparr>)
      \<lparr>ncols = 1, rows = [[Fin 1], [Fin 3]]\<rparr>
     = Inr \<lparr>shape = [2, 1], flat = [Fin 2, Fin 6]\<rparr>
   \<and> evaluate (new_generator 1\<lparr>fit_mu := Some (NdArray [Fin 2]), data_shape := Some [2, 1]\<rparr>)
      \<lparr>ncols = 1, rows = [[Fin 1], [Fin 3], [Fin 4]]\<rparr>
     = Inr \<lparr>shape = [3], flat = [Fin 2, Fin 6, Fin 8]\<rparr>"
proof -
  let ?g = "new_generator 1\<lparr>fit_mu := Some (NdArray [Fin 2]), data_shape := Some [2, 1]\<rparr>"
  have sh: "data_shape ?g = Some [2, 1]" by simp
  have m: "mu ?g = Inr (NdArray [Fin 2])" by (simp add: mu_def)
  have a: "evaluate ?g \<lparr>ncols = 1, rows = [[Fin 1], [Fin 3]]\<rparr>
      = Inr \<lparr>shape = [2, 1], flat = [Fin 2, Fin 6]\<rparr>"
    using evaluate_reshapes [OF sh m, of "\<lparr>ncols = 1, rows = [[Fin 1], [Fin 3]]\<rparr>"]
    by (simp add: nrows_def np_prod_def fdot_def fsum_def)
  have b: "evaluate ?g \<lparr>ncols = 1, rows = [[Fin 1], [Fin 3], [Fin 4]]\<rparr>
      = Inr \<lparr>shape = [3], flat = [Fin 2, Fin 6, Fin 8]\<rparr>"
    using evaluate_reshapes [OF sh m, of "\<lparr>ncols = 1, rows = [[Fin 1], [Fin 3], [Fin 4]]\<rparr>"]
    by (simp add: nrows_def np_prod_def fdot_def fsum_def vector_def)
  from a b show ?thesis by simp
qed

section \<open>Properties of the fit\<close>

text \<open>
  C5: when the number of elements of the data, the product of its shape, is not the
  number of rows of the design matrix, \<open>_fit\<close> raises \<open>ValueError\<close> and the instance
  is as it was: no fit result has been computed or stored.
\<close>

theorem fit_shape_mismatch:
  "np_prod (shape data) \<noteq> nrows X \<Longrightarrow> fit la g data errors bmask X = (g, Inl ValueError)"
  by (simp add: fit_def)

theorem fit_shape_mismatch_witness:
  "np_prod (shape \<lparr>shape = [2], flat = [Fin 1, Fin 2]\<rparr>) \<noteq> nrows \<lparr>ncols = 1, rows = [[Fin 1]]\<rparr>
   \<and> fit exact_linalg (new_generator 1) \<lparr>shape = [2], flat = [Fin 1, Fin 2]\<rparr> None None
         \<lparr>ncols = 1, rows = [[Fin 1]]\<rparr> = (new_generator 1, Inl ValueError)"
proof -
  have h: "np_prod (shape \<lparr>shape = [2], flat = [Fin 1, Fin 2]\<rparr>)
      \<noteq> nrows \<lparr>ncols = 1, rows = [[Fin 1]]\<rparr>"
    by (simp add: np_prod_def nrows_def)
  show ?thesis
    using h fit_shape_mismatch [OF h, of exact_linalg "new_generator 1" None None] by simp
qed

section \<open>Properties of the report formatting\<close>

lemma digits_nonempty: "digits n \<noteq> []"
  by (subst digits.simps) simp

lemma fixed_str_0: "fixed_str 0 x = (if x < 0 then ''-'' else []) @ digits (nat (round_half_even \<bar>x\<bar>))"
proof -
  have "Suc 0 - length (digits n) = 0" for n
    using digits_nonempty [of n] by (cases "digits n") simp_all
  then show ?thesis by (simp add: fixed_str_def Let_def)
qed

lemma digits_0: "digits 0 = ''0''"
  by (subst digits.simps) (simp add: digit_char_def)

lemma round_half_even_0: "round_half_even 0 = 0"
  by (simp add: round_half_even_def)

text \<open>
  C6: when the mean or the error is infinite or not-a-number, the result is the pair
  \<open>("0", "\\infty")\<close> and nothing is raised; when both are finite and the error is
  exactly zero, both are written with no decimal place: the mean as its sign and the
  digits of its absolute value rounded to an integer, the error as \<open>"0"\<close>.
\<close>

theorem format_special_cases:
  "(isinf mean \<or> isinf error \<or> isnan mean \<or> isnan error
      \<longrightarrow> format_significant_figures mean error = Inr (''0'', CHR 0x5C # ''infty''))
   \<and> format_significant_figures (Fin m) (Fin 0)
       = Inr ((if m < 0 then ''-'' else []) @ digits (nat (round_half_even \<bar>m\<bar>)), ''0'')
   \<and> format_significant_figures (Fin m) (Fin 0) = Inr (fixed_str 0 m, fixed_str 0 0)"
  by (simp add: format_significant_figures_def placeholder_def py_format_f_def fixed_str_0
      digits_0 round_half_even_0)

theorem format_special_cases_witness:
  "format_significant_figures (Fin 3) PInf = Inr (''0'', CHR 0x5C # ''infty'')
   \<and> format_significant_figures NaN (Fin 2) = Inr (''0'', CHR 0x5C # ''infty'')
   \<and> format_significant_figures (Fin (- 7 / 2)) (Fin 0) = Inr (''-4'', ''0'')"
proof -
  have d4: "digits 4 = ''4''"
    by (subst digits.simps) (simp add: digit_char_def)
  have r: "round_half_even (7 / 2) = 4"
  proof -
    have "\<lfloor>7 / 2 :: real\<rfloor> = 3" by linarith
    then show ?thesis by (simp add: round_half_even_def Let_def)
  qed
  have a: "format_significant_figures (Fin 3) PInf = Inr (''0'', CHR 0x5C # ''infty'')"
    using format_special_cases [of "Fin 3" PInf] by simp
  have b: "format_significant_figures NaN (Fin 2) = Inr (''0'', CHR 0x5C # ''infty'')"
    using format_special_cases [of NaN "Fin 2"] by simp
  have c: "format_significant_figures (Fin (- 7 / 2)) (Fin 0) = Inr (''-4'', ''0'')"
    using format_special_cases [of _ _ "- 7 / 2"] by (simp add: r d4)
  from a b c show ?thesis by simp
qed

text \<open>
  C10: for a finite mean and a finite error of absolute value at least 10, the number
  of decimal places \<open>-floor(log10(|error|))\<close> is negative and the call raises
  \<open>ValueError\<close> from the formatting of the mean; no pair is returned.
\<close>

theorem format_large_error_raises:
  assumes "10 \<le> \<bar>e\<bar>"
  shows "- \<lfloor>log 10 \<bar>e\<bar>\<rfloor> < 0 \<and> format_significant_figures (Fin m) (Fin e) = Inl ValueError"
proof -
  have "log 10 10 \<le> log 10 \<bar>e\<bar>"
    using assms by (subst log_le_cancel_iff) simp_all
  then have "1 \<le> log 10 \<bar>e\<bar>" by simp
  then have "1 \<le> \<lfloor>log 10 \<bar>e\<bar>\<rfloor>" by linarith
  moreover have "e \<noteq> 0" using assms by auto
  ultimately show ?thesis
    by (simp add: format_significant_figures_def py_format_f_def Let_def)
qed

theorem format_large_error_raises_witness:
  "(10::real) \<le> \<bar>- 250\<bar> \<and> format_significant_figures (Fin 1) (Fin (- 250)) = Inl ValueError"
proof -
  have h: "(10::real) \<le> \<bar>- 250\<bar>" by simp
  show ?thesis using h format_large_error_raises [OF h, of 1] by simp
qed

section \<open>The prior term of the right-hand side\<close>

lemma fsquare_simps [simp]:
  "fsquare PInf = PInf" "fsquare NInf = PInf" "fsquare NaN = NaN" "fsquare (Fin a) = Fin (a * a)"
  by (simp_all add: fsquare_def)

lemma isfinite_nan_to_num [simp]: "isfinite (nan_to_num x)"
  by (cases x) simp_all

lemma prior_term_inf: "isinf s \<Longrightarrow> prior_term m s = Fin 0"
  by (cases s; cases m) (simp_all add: prior_term_def)

lemma prior_term_zero:
  "prior_term m (Fin 0) =
     (case m of
        Fin a \<Rightarrow> Fin (if 0 < a then float_max else if a < 0 then - float_max else 0)
      | PInf \<Rightarrow> Fin float_max
      | NInf \<Rightarrow> Fin (- float_max)
      | NaN \<Rightarrow> Fin 0)"
  by (cases m) (simp_all add: prior_term_def)

lemma fadd_zero_right [simp]: "fadd x (Fin 0) = x"
  by (cases x) simp_all

lemma fadd_zero_left [simp]: "fadd (Fin 0) x = x"
  by (cases x) simp_all

lemma length_tdot_vec [simp]: "length (tdot_vec w A v) = w"
  by (simp add: tdot_vec_def)

lemma prior_rhs_array:
  "prior_mu g = Some m \<Longrightarrow> prior_sigma g = Some (NdArray s) \<Longrightarrow> length (items m) = length s \<Longrightarrow>
   prior_rhs g = Inr (map2 prior_term (items m) s)"
  by (simp add: prior_rhs_def broadcast_def prior_term_def zip_map2 comp_def case_prod_unfold)

lemma rhs_array:
  assumes "bool_index (rows X) msk = Inr Xm" and "bool_index dat msk = Inr dm"
    and "bool_index errs msk = Inr em"
    and "prior_mu g = Some m" and "prior_sigma g = Some (NdArray s)"
    and "length (items m) = ncols X" and "length s = ncols X"
  shows "rhs g X dat errs msk =
     Inr (map2 fadd (tdot_vec (ncols X) Xm (vec_over_sq dm em)) (map2 prior_term (items m) s))"
  using assms by (simp add: rhs_def prior_rhs_array broadcast_def)

text \<open>
  C9, as the code has it: entry \<open>i\<close> of the right-hand side is the data term plus
  \<open>nan_to_num(prior_mu[i] / prior_sigma[i]**2)\<close>, and this prior term is always finite.
  For an infinite \<open>prior_sigma[i]\<close> it is exactly 0, so the entry is the data term
  alone. For \<open>prior_sigma[i]\<close> exactly 0 the division gives an infinity or
  not-a-number, which \<open>nan_to_num\<close> replaces by the largest finite float with the
  sign of a non-zero \<open>prior_mu[i]\<close>, or by 0 for a zero or not-a-number \<open>prior_mu[i]\<close>.
\<close>

theorem rhs_prior_contribution:
  assumes "bool_index (rows X) msk = Inr Xm" and "bool_index dat msk = Inr dm"
    and "bool_index errs msk = Inr em"
    and "prior_mu g = Some m" and "prior_sigma g = Some (NdArray s)"
    and "length (items m) = ncols X" and "length s = ncols X" and "i < ncols X"
  shows "rhs g X dat errs msk =
       Inr (map2 fadd (tdot_vec (ncols X) Xm (vec_over_sq dm em)) (map2 prior_term (items m) s))
     \<and> map2 fadd (tdot_vec (ncols X) Xm (vec_over_sq dm em)) (map2 prior_term (items m) s) ! i
         = fadd (tdot_vec (ncols X) Xm (vec_over_sq dm em) ! i) (prior_term (items m ! i) (s ! i))
     \<and> isfinite (prior_term (items m ! i) (s ! i))
     \<and> (isinf (s ! i) \<longrightarrow> prior_term (items m ! i) (s ! i) = Fin 0
           \<and> map2 fadd (tdot_vec (ncols X) Xm (vec_over_sq dm em)) (map2 prior_term (items m) s) ! i
               = tdot_vec (ncols X) Xm (vec_over_sq dm em) ! i)
     \<and> (s ! i = Fin 0 \<longrightarrow> prior_term (items m ! i) (s ! i) =
           (case items m ! i of
              Fin a \<Rightarrow> Fin (if 0 < a then float_max else if a < 0 then - float_max else 0)
            | PInf \<Rightarrow> Fin float_max
            | NInf \<Rightarrow> Fin (- float_max)
            | NaN \<Rightarrow> Fin 0))"
proof -
  let ?T = "tdot_vec (ncols X) Xm (vec_over_sq dm em)"
  let ?B = "map2 fadd ?T (map2 prior_term (items m) s)"
  have B: "rhs g X dat errs msk = Inr ?B"
    using assms by (simp add: rhs_array)
  have nth: "?B ! i = fadd (?T ! i) (prior_term (items m ! i) (s ! i))"
    using assms by simp
  have fin: "isfinite (prior_term (items m ! i) (s ! i))"
    by (simp add: prior_term_def)
  have inf: "isinf (s ! i) \<longrightarrow> prior_term (items m ! i) (s ! i) = Fin 0 \<and> ?B ! i = ?T ! i"
    using nth by (simp add: prior_term_inf)
  have zero: "s ! i = Fin 0 \<longrightarrow> prior_term (items m ! i) (s ! i) =
           (case items m ! i of
              Fin a \<Rightarrow> Fin (if 0 < a then float_max else if a < 0 then - float_max else 0)
            | PInf \<Rightarrow> Fin float_max
            | NInf \<Rightarrow> Fin (- float_max)
            | NaN \<Rightarrow> Fin 0)"
    by (simp add: prior_term_zero)
  from B nth fin inf zero show ?thesis by blast
qed

lemmas run_fit =
  fit_def default_mask_def sigma_w_inv_def rhs_def bool_index_def select_def prior_precision_def prior_rhs_def
  broadcast_def mat_add_def tdot_mat_def tdot_vec_def column_def rows_over_sq_def
  vec_over_sq_def np_diag_def diagonal_def fdot_def fsum_def np_ones_def np_prod_def
  nrows_def new_generator_def inf_scaled_def Let_def

lemmas run_linalg =
  exact_linalg_def exact_inv_def exact_solve_def gauss_jordan_def identity_def row_sub_def

theorem rhs_prior_contribution_witness:
  "rhs (new_generator 1\<lparr>prior_mu := Some (NdArray [Fin 5]), prior_sigma := Some (NdArray [PInf])\<rparr>)
       \<lparr>ncols = 1, rows = [[Fin 1]]\<rparr> [Fin 3] [Fin 1] [True] = Inr [Fin 3]
   \<and> prior_term (Fin 5) PInf = Fin 0
   \<and> rhs (new_generator 1\<lparr>prior_mu := Some (NdArray [Fin (- 5)]), prior_sigma := Some (NdArray [Fin 0])\<rparr>)
       \<lparr>ncols = 1, rows = [[Fin 1]]\<rparr> [Fin 3] [Fin 1] [True] = Inr [Fin (3 - float_max)]
   \<and> prior_term (Fin (- 5)) (Fin 0) = Fin (- float_max)"
proof -
  let ?X = "\<lparr>ncols = 1, rows = [[Fin 1]]\<rparr>"
  let ?g = "new_generator 1\<lparr>prior_mu := Some (NdArray [Fin 5]), prior_sigma := Some (NdArray [PInf])\<rparr>"
  let ?h = "new_generator 1\<lparr>prior_mu := Some (NdArray [Fin (- 5)]), prior_sigma := Some (NdArray [Fin 0])\<rparr>"
  have x: "bool_index (rows ?X) [True] = Inr [[Fin 1]]" by (simp add: bool_index_def select_def)
  have d: "bool_index [Fin 3] [True] = Inr [Fin 3]" by (simp add: bool_index_def select_def)
  have e: "bool_index [Fin 1] [True] = Inr [Fin 1]" by (simp add: bool_index_def select_def)
  have t: "tdot_vec (Suc 0) [[Fin 1]] (vec_over_sq [Fin 3] [Fin 1]) = [Fin 3]"
    by (simp add: tdot_vec_def vec_over_sq_def column_def fdot_def fsum_def)
  have a: "rhs ?g ?X [Fin 3] [Fin 1] [True] = Inr [Fin 3] \<and> prior_term (Fin 5) PInf = Fin 0"
    using rhs_prior_contribution [OF x d e, of ?g "NdArray [Fin 5]" "[PInf]" 0] t
    by simp
  have b: "rhs ?h ?X [Fin 3] [Fin 1] [True] = Inr [Fin (3 - float_max)]
      \<and> prior_term (Fin (- 5)) (Fin 0) = Fin (- float_max)"
    using rhs_prior_contribution [OF x d e, of ?h "NdArray [Fin (- 5)]" "[Fin 0]" 0] t
    by simp
  from a b show ?thesis by simp
qed

text \<open>
  C9 as stated fails on its second half. With \<open>prior_sigma = [0]\<close> the prior term of
  the right-hand side is neither infinite nor not-a-number: for \<open>prior_mu = [1]\<close> the
  quotient \<open>1 / 0\<close> becomes the largest finite float, and for \<open>prior_mu = [0]\<close> the
  quotient \<open>0 / 0\<close> becomes 0, so the right-hand side is a finite number.
\<close>

theorem rhs_zero_sigma_is_coerced:
  "rhs (new_generator 1\<lparr>prior_mu := Some (NdArray [Fin 1]), prior_sigma := Some (NdArray [Fin 0])\<rparr>)
       \<lparr>ncols = 1, rows = [[Fin 1]]\<rparr> [Fin 3] [Fin 1] [True] = Inr [Fin (3 + float_max)]
   \<and> rhs (new_generator 1\<lparr>prior_mu := Some (NdArray [Fin 0]), prior_sigma := Some (NdArray [Fin 0])\<rparr>)
       \<lparr>ncols = 1, rows = [[Fin 1]]\<rparr> [Fin 3] [Fin 1] [True] = Inr [Fin 3]"
  by (simp add: run_fit)

section \<open>The instance after a failed fit\<close>

text \<open>
  C3, as the code has it. \<open>_fit\<close> never assigns \<open>fit_mu\<close> or \<open>fit_sigma\<close> (it
  returns them), and a call that raises leaves them, the priors and the width as they
  were. A call that raises for the shape mismatch, or for zero-dimensional data without
  a mask, leaves the whole instance unchanged. Every other failing call has assigned
  \<open>data_shape\<close> and nothing else when it fails before \<open>np.linalg.inv\<close> returns, and
  has assigned \<open>data_shape\<close> and the result of \<open>np.linalg.inv\<close> as \<open>cov\<close>, and
  nothing else, when it fails after that.
\<close>

theorem fit_failure_state:
  assumes "fit la g data errors bmask X = (g', Inl e)"
    and "errs = (case errors of None \<Rightarrow> np_ones (length (flat data)) | Some a \<Rightarrow> flat a)"
    and "msk = (case bmask of None \<Rightarrow> replicate (np_prod (shape data)) True | Some b \<Rightarrow> flat b)"
  shows "fit_mu g' = fit_mu g \<and> fit_sigma g' = fit_sigma g
     \<and> prior_mu g' = prior_mu g \<and> prior_sigma g' = prior_sigma g \<and> width g' = width g
     \<and> (if np_prod (shape data) \<noteq> nrows X then g' = g \<and> e = ValueError
         else if bmask = None \<and> shape data = [] then g' = g \<and> e = TypeError
         else
           case sigma_w_inv (g\<lparr>data_shape := Some (shape data)\<rparr>) X errs msk of
             Inl e1 \<Rightarrow> g' = g\<lparr>data_shape := Some (shape data)\<rparr> \<and> e = e1
           | Inr A \<Rightarrow>
               (case linalg_inv la A of
                  Inl e1 \<Rightarrow> g' = g\<lparr>data_shape := Some (shape data)\<rparr> \<and> e = e1
                | Inr C \<Rightarrow>
                    g' = g\<lparr>data_shape := Some (shape data), cov := Some C\<rparr>
                    \<and> (case rhs (g\<lparr>data_shape := Some (shape data), cov := Some C\<rparr>) X
                               (flat data) errs msk of
                          Inl e1 \<Rightarrow> e = e1
                        | Inr B \<Rightarrow> linalg_solve la A B = Inl e)))"
proof (cases "np_prod (shape data) \<noteq> nrows X")
  case True
  then show ?thesis using assms(1) by (simp add: fit_def)
next
  case False
  note count = this
  show ?thesis
  proof (cases "bmask = None \<and> shape data = []")
    case True
    then show ?thesis using assms(1) count by (simp add: fit_def default_mask_def)
  next
    case False
    then have m: "(case bmask of None \<Rightarrow> default_mask (shape data) | Some m \<Rightarrow> Inr (flat m)) = Inr msk"
      using assms(3) by (cases bmask) (simp_all add: default_mask_def)
    show ?thesis
      using assms(1) count False
      by (auto simp: fit_def m assms(2) [symmetric] Let_def split: sum.splits)
  qed
qed

theorem fit_failure_state_witness:
  "fit exact_linalg
       (new_generator 1\<lparr>prior_mu := Some (NdArray [Fin 0]), prior_sigma := Some (NdArray [PInf])\<rparr>)
       \<lparr>shape = [2], flat = [Fin 1, Fin 3]\<rparr> (Some \<lparr>shape = [1], flat = [Fin 1]\<rparr>) None
       \<lparr>ncols = 1, rows = [[Fin 1], [Fin 1]]\<rparr>
     = (new_generator 1\<lparr>prior_mu := Some (NdArray [Fin 0]), prior_sigma := Some (NdArray [PInf]),
          data_shape := Some [2]\<rparr>, Inl IndexError)
   \<and> fit exact_linalg (new_generator 1\<lparr>prior_sigma := Some (NdArray [PInf])\<rparr>)
       \<lparr>shape = [1], flat = [Fin 3]\<rparr> None None \<lparr>ncols = 1, rows = [[Fin 1]]\<rparr>
     = (new_generator 1\<lparr>prior_sigma := Some (NdArray [PInf]), data_shape := Some [1],
          cov := Some [[Fin 1]]\<rparr>, Inl AttributeError)
   \<and> fit exact_linalg (new_generator 1\<lparr>prior_sigma := Some (NdArray [PInf])\<rparr>)
       \<lparr>shape = [], flat = [Fin 3]\<rparr> None None \<lparr>ncols = 1, rows = [[Fin 1]]\<rparr>
     = (new_generator 1\<lparr>prior_sigma := Some (NdArray [PInf])\<rparr>, Inl TypeError)
   \<and> fit_mu (new_generator 1\<lparr>prior_sigma := Some (NdArray [PInf]), data_shape := Some [1],
          cov := Some [[Fin 1]]\<rparr>) = None"
proof -
  let ?g = "new_generator 1\<lparr>prior_mu := Some (NdArray [Fin 0]), prior_sigma := Some (NdArray [PInf])\<rparr>"
  let ?h = "new_generator 1\<lparr>prior_sigma := Some (NdArray [PInf])\<rparr>"
  let ?X = "\<lparr>ncols = 1, rows = [[Fin 1]]\<rparr>"
  have a: "fit exact_linalg ?g \<lparr>shape = [2], flat = [Fin 1, Fin 3]\<rparr>
       (Some \<lparr>shape = [1], flat = [Fin 1]\<rparr>) None \<lparr>ncols = 1, rows = [[Fin 1], [Fin 1]]\<rparr>
     = (?g\<lparr>data_shape := Some [2]\<rparr>, Inl IndexError)"
    by (simp add: run_fit)
  have b: "fit exact_linalg ?h \<lparr>shape = [1], flat = [Fin 3]\<rparr> None None ?X
     = (?h\<lparr>data_shape := Some [1], cov := Some [[Fin 1]]\<rparr>, Inl AttributeError)"
    by (simp add: run_fit run_linalg)
  have c: "fit exact_linalg ?h \<lparr>shape = [], flat = [Fin 3]\<rparr> None None ?X = (?h, Inl TypeError)"
    by (simp add: run_fit)
  show ?thesis
    using a b c fit_failure_state [OF a refl refl] fit_failure_state [OF b refl refl]
      fit_failure_state [OF c refl refl]
    by (simp add: new_generator_def)
qed

text \<open>
  C3 as stated fails. A design matrix of zeros with the default prior gives a singular
  matrix of normal equations; the inversion raises, and \<open>data_shape\<close>, which was
  \<open>None\<close>, has been overwritten with the shape of the data.
\<close>

theorem fit_singular_leaves_data_shape:
  "fit exact_linalg
       (new_generator 1\<lparr>prior_mu := Some (NdArray [Fin 0]), prior_sigma := Some (NdArray [PInf])\<rparr>)
       \<lparr>shape = [1], flat = [Fin 1]\<rparr> None None \<lparr>ncols = 1, rows = [[Fin 0]]\<rparr>
     = (new_generator 1\<lparr>prior_mu := Some (NdArray [Fin 0]), prior_sigma := Some (NdArray [PInf]),
          data_shape := Some [1]\<rparr>, Inl LinAlgError)
   \<and> data_shape (new_generator 1\<lparr>prior_mu := Some (NdArray [Fin 0]),
        prior_sigma := Some (NdArray [PInf])\<rparr>) = None"
  by (simp add: run_fit run_linalg)

section \<open>The fit computes the posterior\<close>

lemma fmul_fdiv_weight: "fmul (fmul a (fdiv (Fin 1) d)) b = fmul a (fdiv b d)"
  by (cases a; cases b; cases d)
    (auto simp: inf_scaled_def zero_less_mult_iff mult_less_0_iff zero_less_divide_iff
      divide_less_0_iff)

lemma set_select: "set (select xs msk) \<subseteq> set xs"
  unfolding select_def by (auto dest: set_zip_leftD)

lemma tdot_entry:
  "\<forall>r\<in>set Xm. j < length r \<Longrightarrow>
   fdot (column Xm i) (column (rows_over_sq Xm em) j)
     = fsum (map2 (\<lambda>r e. fmul (fmul (r ! i) (fdiv (Fin 1) (fsquare e))) (r ! j)) Xm em)"
proof (induction Xm arbitrary: em)
  case Nil
  then show ?case by (simp add: fdot_def column_def rows_over_sq_def)
next
  case (Cons r Xm)
  show ?case
  proof (cases em)
    case Nil
    then show ?thesis by (simp add: fdot_def column_def rows_over_sq_def)
  next
    case (Cons e em')
    have "fdot (column Xm i) (column (rows_over_sq Xm em') j)
        = fsum (map2 (\<lambda>r e. fmul (fmul (r ! i) (fdiv (Fin 1) (fsquare e))) (r ! j)) Xm em')"
      using Cons.IH Cons.prems by simp
    then show ?thesis
      using Cons Cons.prems
      by (simp add: fdot_def fsum_def column_def rows_over_sq_def fmul_fdiv_weight)
  qed
qed

lemma tdot_mat_spec:
  assumes "\<forall>r\<in>set Xm. length r = w" and "length s = w"
  shows "mat_add (tdot_mat w Xm (rows_over_sq Xm em))
           (np_diag (map (\<lambda>x. fdiv (Fin 1) (fsquare x)) s))
         = Inr (spec_normal_matrix w Xm em s)"
proof -
  have entry: "fadd (fdot (column Xm i) (column (rows_over_sq Xm em) j))
        (if i = j then map (\<lambda>x. fdiv (Fin 1) (fsquare x)) s ! i else Fin 0)
      = spec_normal_entry Xm em s i j" if "i < w" "j < w" for i j
  proof -
    have "\<forall>r\<in>set Xm. j < length r" using assms(1) that(2) by simp
    then show ?thesis
      using that assms(2) by (simp add: tdot_entry spec_normal_entry_def)
  qed
  have "map2 (map2 fadd) (tdot_mat w Xm (rows_over_sq Xm em))
          (np_diag (map (\<lambda>x. fdiv (Fin 1) (fsquare x)) s))
        = spec_normal_matrix w Xm em s"
    unfolding tdot_mat_def np_diag_def spec_normal_matrix_def
    using assms(2) entry by (simp add: map2_map_map)
  then show ?thesis
    using assms(2) by (simp add: mat_add_def tdot_mat_def np_diag_def)
qed

lemma sigma_w_inv_spec:
  assumes "wf_matrix X" and "length msk = nrows X" and "length errs = nrows X"
    and "prior_sigma g = Some (NdArray s)" and "length s = ncols X"
  shows "sigma_w_inv g X errs msk
     = Inr (spec_normal_matrix (ncols X) (select (rows X) msk) (select errs msk) s)"
proof -
  have "\<forall>r\<in>set (select (rows X) msk). length r = ncols X"
    using assms(1) set_select [of "rows X" msk] by (auto simp: wf_matrix_def list_all_iff)
  then show ?thesis
    using assms
    by (simp add: sigma_w_inv_def bool_index_def nrows_def prior_precision_def tdot_mat_spec)
qed

lemma fdot_data_term: "fdot (column Xm i) (vec_over_sq dm em) = spec_data_term Xm dm em i"
  by (simp add: fdot_def column_def vec_over_sq_def spec_data_term_def zip_map_map
      case_prod_unfold comp_def)

lemma rhs_entries:
  assumes "bool_index (rows X) msk = Inr Xm" and "bool_index dat msk = Inr dm"
    and "bool_index errs msk = Inr em"
    and "prior_mu g = Some m" and "prior_sigma g = Some (NdArray s)"
    and "length (items m) = ncols X" and "length s = ncols X"
  shows "rhs g X dat errs msk =
     Inr (map (\<lambda>i. fadd (spec_data_term Xm dm em i) (prior_term (items m ! i) (s ! i)))
            [0..<ncols X])"
proof -
  have "map2 fadd (tdot_vec (ncols X) Xm (vec_over_sq dm em)) (map2 prior_term (items m) s)
      = map (\<lambda>i. fadd (spec_data_term Xm dm em i) (prior_term (items m ! i) (s ! i)))
          [0..<ncols X]"
    using assms(6,7) by (intro nth_equalityI) (simp_all add: tdot_vec_def fdot_data_term)
  then show ?thesis
    using rhs_array [OF assms] by simp
qed

lemma prior_term_proper:
  "isfinite m \<Longrightarrow> s \<noteq> Fin 0 \<Longrightarrow> \<not> isnan s \<Longrightarrow> prior_term m s = spec_prior_ratio m s"
  by (cases m; cases s) (simp_all add: prior_term_def spec_prior_ratio_def)

lemma rhs_proper:
  assumes "proper_priors m s" and "length m = w" and "length s = w"
  shows "map (\<lambda>i. fadd (spec_data_term Xm dm em i) (prior_term (m ! i) (s ! i))) [0..<w]
     = spec_rhs w Xm dm em m s"
  using assms
  by (simp add: spec_rhs_def proper_priors_def list_all_length prior_term_proper)

text \<open>
  C1, as the code has it. Take a call whose data has as many elements as the design
  matrix has rows, with errors and mask of that size, data that is not zero-dimensional
  when no mask is passed, a prior mean of the width and a prior sigma stored as an array
  of the width. Then \<open>_fit\<close> forms the matrix \<open>A\<close> of the normal equations exactly as
  the specification writes it and passes it to \<open>np.linalg.inv\<close>. If that raises, the
  error is passed on. Otherwise the inverse \<open>C\<close> is stored as \<open>cov\<close>, and the call
  returns what \<open>np.linalg.solve\<close> gives for \<open>A\<close> and the right-hand side \<open>b\<close>, not
  a product with \<open>C\<close>, together with the square root of the diagonal of \<open>C\<close>; an
  error of the solve is passed on. Entry \<open>i\<close> of \<open>b\<close> is the data term of the
  specification plus \<open>nan_to_num(prior_mu[i] / prior_sigma[i]**2)\<close>, and \<open>b\<close> is the
  right-hand side of the specification when every prior mean is finite and every prior
  sigma is neither zero nor not-a-number.
\<close>

theorem fit_computes_posterior:
  assumes "np_prod (shape data) = nrows X" and "wf_ndarray data" and "wf_matrix X"
    and "bmask = None \<longrightarrow> shape data \<noteq> []"
    and "errs = (case errors of None \<Rightarrow> np_ones (nrows X) | Some e \<Rightarrow> flat e)"
    and "length errs = nrows X"
    and "msk = (case bmask of None \<Rightarrow> replicate (nrows X) True | Some b \<Rightarrow> flat b)"
    and "length msk = nrows X"
    and "prior_mu g = Some m" and "length (items m) = ncols X"
    and "prior_sigma g = Some (NdArray s)" and "length s = ncols X"
    and "A = spec_normal_matrix (ncols X) (select (rows X) msk) (select errs msk) s"
    and "b = map (\<lambda>i. fadd (spec_data_term (select (rows X) msk) (select (flat data) msk)
                               (select errs msk) i)
                          (prior_term (items m ! i) (s ! i))) [0..<ncols X]"
  shows "fit la g data errors bmask X =
       (case linalg_inv la A of
          Inl e \<Rightarrow> (g\<lparr>data_shape := Some (shape data)\<rparr>, Inl e)
        | Inr C \<Rightarrow>
            (g\<lparr>data_shape := Some (shape data), cov := Some C\<rparr>,
             case linalg_solve la A b of
               Inl e \<Rightarrow> Inl e
             | Inr fm \<Rightarrow> Inr (fm, map fsqrt (diagonal C))))
     \<and> (proper_priors (items m) s \<longrightarrow>
          b = spec_rhs (ncols X) (select (rows X) msk) (select (flat data) msk)
                (select errs msk) (items m) s)"
proof -
  let ?g1 = "g\<lparr>data_shape := Some (shape data)\<rparr>"
  have len: "length (flat data) = nrows X"
    using assms(1,2) by (simp add: wf_ndarray_def)
  have errs: "(case errors of None \<Rightarrow> np_ones (length (flat data)) | Some e \<Rightarrow> flat e) = errs"
    using assms(5) len by (cases errors) simp_all
  have msk: "(case bmask of None \<Rightarrow> default_mask (shape data) | Some m \<Rightarrow> Inr (flat m)) = Inr msk"
    using assms(1,4,7) by (cases bmask) (simp_all add: default_mask_def)
  have A: "sigma_w_inv ?g1 X errs msk = Inr A"
    using assms by (simp add: sigma_w_inv_spec)
  have sel: "bool_index (rows X) msk = Inr (select (rows X) msk)"
    "bool_index (flat data) msk = Inr (select (flat data) msk)"
    "bool_index errs msk = Inr (select errs msk)"
    using assms(6,8) len by (simp_all add: bool_index_def nrows_def)
  have b: "rhs (?g1\<lparr>cov := Some C\<rparr>) X (flat data) errs msk = Inr b" for C
    using assms(9-12,14) by (simp add: rhs_entries [OF sel])
  have run: "fit la g data errors bmask X =
       (case linalg_inv la A of
          Inl e \<Rightarrow> (g\<lparr>data_shape := Some (shape data)\<rparr>, Inl e)
        | Inr C \<Rightarrow>
            (g\<lparr>data_shape := Some (shape data), cov := Some C\<rparr>,
             case linalg_solve la A b of
               Inl e \<Rightarrow> Inl e
             | Inr fm \<Rightarrow> Inr (fm, map fsqrt (diagonal C))))"
    using assms(1) A b by (simp add: fit_def errs msk split: sum.splits)
  have spec: "proper_priors (items m) s \<longrightarrow>
          b = spec_rhs (ncols X) (select (rows X) msk) (select (flat data) msk)
                (select errs msk) (items m) s"
    using assms(10,12,14) by (simp add: rhs_proper)
  from run spec show ?thesis by simp
qed

theorem fit_computes_posterior_witness:
  "fit exact_linalg
       (new_generator 1\<lparr>prior_mu := Some (NdArray [Fin 0]), prior_sigma := Some (NdArray [PInf])\<rparr>)
       \<lparr>shape = [5], flat = [Fin 1, Fin 100, Fin 2, Fin 3, Fin 6]\<rparr> None
       (Some \<lparr>shape = [5], flat = [True, False, True, True, True]\<rparr>)
       \<lparr>ncols = 1, rows = [[Fin 1], [Fin 1], [Fin 1], [Fin 1], [Fin 1]]\<rparr>
     = (new_generator 1\<lparr>prior_mu := Some (NdArray [Fin 0]), prior_sigma := Some (NdArray [PInf]),
          data_shape := Some [5], cov := Some [[Fin (1 / 4)]]\<rparr>,
        Inr ([Fin 3], [Fin (1 / 2)]))
   \<and> [Fin 12] = spec_rhs 1 [[Fin 1], [Fin 1], [Fin 1], [Fin 1]] [Fin 1, Fin 2, Fin 3, Fin 6]
        [Fin 1, Fin 1, Fin 1, Fin 1] [Fin 0] [PInf]
   \<and> fit exact_linalg
       (new_generator 1\<lparr>prior_mu := Some (NdArray [Fin 0]), prior_sigma := Some (NdArray [PInf])\<rparr>)
       \<lparr>shape = [2, 2], flat = [Fin 1, Fin 2, Fin 3, Fin 6]\<rparr> None None
       \<lparr>ncols = 1, rows = [[Fin 1], [Fin 1], [Fin 1], [Fin 1]]\<rparr>
     = (new_generator 1\<lparr>prior_mu := Some (NdArray [Fin 0]), prior_sigma := Some (NdArray [PInf]),
          data_shape := Some [2, 2], cov := Some [[Fin (1 / 4)]]\<rparr>,
        Inr ([Fin 3], [Fin (1 / 2)]))"
proof -
  let ?g = "new_generator 1\<lparr>prior_mu := Some (NdArray [Fin 0]), prior_sigma := Some (NdArray [PInf])\<rparr>"
  let ?D = "\<lparr>shape = [5], flat = [Fin 1, Fin 100, Fin 2, Fin 3, Fin 6]\<rparr>"
  let ?M = "\<lparr>shape = [5], flat = [True, False, True, True, True]\<rparr>"
  let ?X = "\<lparr>ncols = 1, rows = [[Fin 1], [Fin 1], [Fin 1], [Fin 1], [Fin 1]]\<rparr>"
  let ?m = "[True, False, True, True, True]"
  have 1: "np_prod (shape ?D) = nrows ?X" by (simp add: np_prod_def nrows_def)
  have 2: "wf_ndarray ?D" by (simp add: wf_ndarray_def np_prod_def)
  have 3: "wf_matrix ?X" by (simp add: wf_matrix_def)
  have 4: "Some ?M = None \<longrightarrow> shape ?D \<noteq> []" by simp
  have 5: "replicate 5 (Fin 1) = (case None of None \<Rightarrow> np_ones (nrows ?X) | Some e \<Rightarrow> flat e)"
    by (simp add: np_ones_def nrows_def eval_nat_numeral)
  have 6: "length (replicate 5 (Fin 1)) = nrows ?X" by (simp add: nrows_def)
  have 7: "?m = (case Some ?M of None \<Rightarrow> replicate (nrows ?X) True | Some b \<Rightarrow> flat b)" by simp
  have 8: "length ?m = nrows ?X" by (simp add: nrows_def)
  have 9: "prior_mu ?g = Some (NdArray [Fin 0])" by simp
  have 10: "length (items (NdArray [Fin 0])) = ncols ?X" by simp
  have 11: "prior_sigma ?g = Some (NdArray [PInf])" by simp
  have 12: "length [PInf] = ncols ?X" by simp
  have 13: "[[Fin 4]] = spec_normal_matrix (ncols ?X) (select (rows ?X) ?m)
       (select (replicate 5 (Fin 1)) ?m) [PInf]"
    by (simp add: select_def spec_normal_matrix_def spec_normal_entry_def fsum_def
        eval_nat_numeral)
  have 14: "[Fin 12] = map (\<lambda>i. fadd (spec_data_term (select (rows ?X) ?m) (select (flat ?D) ?m)
                               (select (replicate 5 (Fin 1)) ?m) i)
                          (prior_term (items (NdArray [Fin 0]) ! i) ([PInf] ! i))) [0..<ncols ?X]"
    by (simp add: select_def spec_data_term_def fsum_def prior_term_def eval_nat_numeral)
  have inv: "linalg_inv exact_linalg [[Fin 4]] = Inr [[Fin (1 / 4)]]"
    by (simp add: run_linalg np_diag_def np_ones_def)
  have solve: "linalg_solve exact_linalg [[Fin 4]] [Fin 12] = Inr [Fin 3]"
    by (simp add: run_linalg)
  have proper: "proper_priors (items (NdArray [Fin 0])) [PInf]"
    by (simp add: proper_priors_def)
  have s: "sqrt (1 / 4) = 1 / 2"
    by (simp add: real_sqrt_divide)
  have first: "fit exact_linalg ?g ?D None (Some ?M) ?X
       = (?g\<lparr>data_shape := Some [5], cov := Some [[Fin (1 / 4)]]\<rparr>, Inr ([Fin 3], [Fin (1 / 2)]))
     \<and> [Fin 12] = spec_rhs 1 [[Fin 1], [Fin 1], [Fin 1], [Fin 1]] [Fin 1, Fin 2, Fin 3, Fin 6]
          [Fin 1, Fin 1, Fin 1, Fin 1] [Fin 0] [PInf]"
    using fit_computes_posterior [OF 1 2 3 4 5 6 7 8 9 10 11 12 13 14, of exact_linalg]
      inv solve proper
    by (simp add: diagonal_def s select_def eval_nat_numeral)
  let ?E = "\<lparr>shape = [2, 2], flat = [Fin 1, Fin 2, Fin 3, Fin 6]\<rparr>"
  let ?Y = "\<lparr>ncols = 1, rows = [[Fin 1], [Fin 1], [Fin 1], [Fin 1]]\<rparr>"
  have n1: "np_prod (shape ?E) = nrows ?Y" by (simp add: np_prod_def nrows_def)
  have n2: "wf_ndarray ?E" by (simp add: wf_ndarray_def np_prod_def)
  have n3: "wf_matrix ?Y" by (simp add: wf_matrix_def)
  have n4: "None = None \<longrightarrow> shape ?E \<noteq> []" by simp
  have n5: "replicate 4 (Fin 1) = (case None of None \<Rightarrow> np_ones (nrows ?Y) | Some e \<Rightarrow> flat e)"
    by (simp add: np_ones_def nrows_def eval_nat_numeral)
  have n6: "length (replicate 4 (Fin 1)) = nrows ?Y" by (simp add: nrows_def)
  have n7: "replicate 4 True = (case None of None \<Rightarrow> replicate (nrows ?Y) True | Some b \<Rightarrow> flat b)"
    by (simp add: nrows_def eval_nat_numeral)
  have n8: "length (replicate 4 True) = nrows ?Y" by (simp add: nrows_def)
  have n10: "length (items (NdArray [Fin 0])) = ncols ?Y" by simp
  have n12: "length [PInf] = ncols ?Y" by simp
  have n13: "[[Fin 4]] = spec_normal_matrix (ncols ?Y) (select (rows ?Y) (replicate 4 True))
       (select (replicate 4 (Fin 1)) (replicate 4 True)) [PInf]"
    by (simp add: select_def spec_normal_matrix_def spec_normal_entry_def fsum_def
        eval_nat_numeral)
  have n14: "[Fin 12] = map (\<lambda>i. fadd (spec_data_term (select (rows ?Y) (replicate 4 True))
                               (select (flat ?E) (replicate 4 True))
                               (select (replicate 4 (Fin 1)) (replicate 4 True)) i)
                          (prior_term (items (NdArray [Fin 0]) ! i) ([PInf] ! i))) [0..<ncols ?Y]"
    by (simp add: select_def spec_data_term_def fsum_def prior_term_def eval_nat_numeral)
  have second: "fit exact_linalg ?g ?E None None ?Y
       = (?g\<lparr>data_shape := Some [2, 2], cov := Some [[Fin (1 / 4)]]\<rparr>,
          Inr ([Fin 3], [Fin (1 / 2)]))"
    using fit_computes_posterior [OF n1 n2 n3 n4 n5 n6 n7 n8 9 n10 11 n12 n13 n14, of exact_linalg]
      inv solve
    by (simp add: diagonal_def s)
  from first second show ?thesis by simp
qed

text \<open>
  C1 as stated fails: a call whose data has as many elements as the design matrix has
  rows need not store a covariance or return a mean. A design matrix with two equal
  columns and the default prior gives a singular matrix of normal equations, and the
  inversion raises; a prior sigma of the right length stored as a list raises
  \<open>TypeError\<close> when it is squared; and zero-dimensional data without a mask raises
  \<open>TypeError\<close> when the default mask is built.
\<close>

theorem fit_raises_on_matching_count:
  "np_prod (shape \<lparr>shape = [1], flat = [Fin 3]\<rparr>) = nrows \<lparr>ncols = 2, rows = [[Fin 1, Fin 1]]\<rparr>
   \<and> fit exact_linalg
       (new_generator 2\<lparr>prior_mu := Some (NdArray [Fin 0, Fin 0]),
          prior_sigma := Some (NdArray [PInf, PInf])\<rparr>)
       \<lparr>shape = [1], flat = [Fin 3]\<rparr> None None \<lparr>ncols = 2, rows = [[Fin 1, Fin 1]]\<rparr>
     = (new_generator 2\<lparr>prior_mu := Some (NdArray [Fin 0, Fin 0]),
          prior_sigma := Some (NdArray [PInf, PInf]), data_shape := Some [1]\<rparr>, Inl LinAlgError)
   \<and> fit exact_linalg
       (new_generator 1\<lparr>prior_mu := Some (NdArray [Fin 0]), prior_sigma := Some (PySeq [Fin 1])\<rparr>)
       \<lparr>shape = [1], flat = [Fin 3]\<rparr> None None \<lparr>ncols = 1, rows = [[Fin 1]]\<rparr>
     = (new_generator 1\<lparr>prior_mu := Some (NdArray [Fin 0]), prior_sigma := Some (PySeq [Fin 1]),
          data_shape := Some [1]\<rparr>, Inl TypeError)
   \<and> fit exact_linalg
       (new_generator 1\<lparr>prior_mu := Some (NdArray [Fin 0]), prior_sigma := Some (NdArray [PInf])\<rparr>)
       \<lparr>shape = [], flat = [Fin 3]\<rparr> None None \<lparr>ncols = 1, rows = [[Fin 1]]\<rparr>
     = (new_generator 1\<lparr>prior_mu := Some (NdArray [Fin 0]), prior_sigma := Some (NdArray [PInf])\<rparr>,
        Inl TypeError)"
  by (simp add: run_fit run_linalg eval_nat_numeral)

end
